theory Spec2Isabelle
  imports
    Complex_Main
    "HOL-Library.Char_ord"
    "HOL-Library.List_Lexorder"
    "HOL-Library.Product_Lexorder"
begin

section \<open>Strings\<close>

text \<open>
  A Python \<^verbatim>\<open>str\<close> is modelled as a \<^typ>\<open>string\<close>, the list of the bytes of its UTF-8
  encoding. Comparing two such lists byte by byte (the lexicographic order of
  \<^theory_text>\<open>List_Lexorder\<close> over \<^theory_text>\<open>Char_ord\<close>) agrees with Python's comparison by
  code point, and a substring test on the bytes agrees with \<^verbatim>\<open>in\<close> on the code points.

  \<^verbatim>\<open>str.lower()\<close> is modelled on the ASCII letters: \<^verbatim>\<open>A\<close>..\<^verbatim>\<open>Z\<close> are mapped to
  \<^verbatim>\<open>a\<close>..\<^verbatim>\<open>z\<close>, every other byte is kept. This is what Python computes on ASCII
  text; cased letters outside ASCII are not lowered by the model.
\<close>

definition lower_char :: "char \<Rightarrow> char" where
  "lower_char c =
     (let n = (of_char c :: nat) in if 65 \<le> n \<and> n \<le> 90 then char_of (n + 32) else c)"

definition lower :: "string \<Rightarrow> string" where
  "lower s = map lower_char s"

text \<open>\<^verbatim>\<open>s.startswith(p)\<close> and \<^verbatim>\<open>s.endswith(p)\<close>.\<close>

definition startswith :: "string \<Rightarrow> string \<Rightarrow> bool" where
  "startswith s p = (take (length p) s = p)"

definition endswith :: "string \<Rightarrow> string \<Rightarrow> bool" where
  "endswith s p = (length p \<le> length s \<and> drop (length s - length p) s = p)"

text \<open>\<^verbatim>\<open>k in s\<close> for two strings: \<open>k\<close> occurs in \<open>s\<close> as a contiguous block.\<close>

fun contains :: "string \<Rightarrow> string \<Rightarrow> bool" where
  "contains [] k = (k = [])"
| "contains (c # s) k = (startswith (c # s) k \<or> contains s k)"

text \<open>\<^verbatim>\<open>d.get(k, default)\<close> on a dictionary written as the list of its items.\<close>

definition dict_get :: "('k \<times> 'v) list \<Rightarrow> 'k \<Rightarrow> 'v \<Rightarrow> 'v" where
  "dict_get d k dflt = (case map_of d k of Some v \<Rightarrow> v | None \<Rightarrow> dflt)"

section \<open>Tag analyzer (\<^verbatim>\<open>app/services/tag_analyzer.py\<close>)\<close>

definition COMMON_TAGS_TO_REMOVE :: "string set" where
  "COMMON_TAGS_TO_REMOVE = {''unknown'', ''error'', ''other'', ''undefined''}"

definition TAG_SYNONYMS :: "(string \<times> string) list" where
  "TAG_SYNONYMS =
    [(''jpg'', ''jpeg''),
     (''jpeg'', ''jpeg''),
     (''png'', ''png''),
     (''gif'', ''gif''),
     (''pic'', ''image''),
     (''picture'', ''image''),
     (''photo'', ''image''),
     (''img'', ''image''),
     (''movie'', ''video''),
     (''clip'', ''video''),
     (''sound'', ''audio''),
     (''music'', ''audio''),
     (''doc'', ''document''),
     (''paper'', ''document''),
     (''file'', ''document''),
     (''code'', ''programming''),
     (''script'', ''programming''),
     (''dev'', ''development''),
     (''frontend'', ''front-end''),
     (''backend'', ''back-end'')]"

definition TAG_PRIORITY :: "(string \<times> int) list" where
  "TAG_PRIORITY =
    [(''image'', 10),
     (''video'', 10),
     (''audio'', 10),
     (''document'', 10),
     (''code'', 9),
     (''programming'', 9),
     (''python'', 8),
     (''javascript'', 8),
     (''react'', 8),
     (''high-resolution'', 7),
     (''4k'', 7),
     (''hd'', 7),
     (''pdf'', 6),
     (''web'', 5),
     (''frontend'', 5),
     (''backend'', 5)]"

text \<open>
  \<^verbatim>\<open>normalize_tags\<close>: the loop appends, for each tag in turn, the synonym of its
  lower-cased form (the lower-cased form itself when the dictionary has no entry).
\<close>

fun normalize_loop :: "string list \<Rightarrow> string list \<Rightarrow> string list" where
  "normalize_loop [] normalized = normalized"
| "normalize_loop (tag # tags) normalized =
     (let tag_lower = lower tag;
          normalized_tag = dict_get TAG_SYNONYMS tag_lower tag_lower
      in normalize_loop tags (normalized @ [normalized_tag]))"

definition normalize_tags :: "string list \<Rightarrow> string list" where
  "normalize_tags tags = normalize_loop tags []"


text \<open>
  \<^verbatim>\<open>filter_tags\<close>: the loop carries the set \<^verbatim>\<open>seen\<close> and the list \<^verbatim>\<open>filtered\<close>.
\<close>

fun filter_loop :: "string list \<Rightarrow> string set \<Rightarrow> string list \<Rightarrow> string list" where
  "filter_loop [] seen filtered = filtered"
| "filter_loop (tag # tags) seen filtered =
     (let tag_lower = lower tag
      in if tag_lower \<notin> seen \<and> tag_lower \<notin> COMMON_TAGS_TO_REMOVE
         then filter_loop tags (insert tag_lower seen) (filtered @ [tag_lower])
         else filter_loop tags seen filtered)"

definition filter_tags :: "string list \<Rightarrow> string list" where
  "filter_tags tags = filter_loop tags {} []"

text \<open>
  \<^verbatim>\<open>sorted(xs, key=k, reverse=True)\<close>: Python reverses the list, sorts it stably in
  ascending order of the key and reverses the result, so that equal keys keep their
  original order. The key \<^verbatim>\<open>(TAG_PRIORITY.get(t, 0), t)\<close> is a pair, compared
  lexicographically.
\<close>

definition sorted_reverse :: "('a \<Rightarrow> 'k::linorder) \<Rightarrow> 'a list \<Rightarrow> 'a list" where
  "sorted_reverse k xs = rev (sort_key k (rev xs))"

definition priority_key :: "string \<Rightarrow> int \<times> string" where
  "priority_key t = (dict_get TAG_PRIORITY t 0, t)"

text \<open>
  The slice \<^verbatim>\<open>xs[:n]\<close>: the first \<open>n\<close> elements when \<open>n\<close> is not negative, all but the
  last \<open>-n\<close> elements when it is.
\<close>

definition slice_to :: "int \<Rightarrow> 'a list \<Rightarrow> 'a list" where
  "slice_to n xs = (if 0 \<le> n then take (nat n) xs else take (length xs - nat (- n)) xs)"

text \<open>
  \<^verbatim>\<open>max_tags\<close> is \<^verbatim>\<open>config.MAX_TAGS_PER_FILE\<close>, an integer read from the environment
  (15 when the variable is not set); it is a parameter of the model.
\<close>

definition prioritize_tags :: "int \<Rightarrow> string list \<Rightarrow> string list" where
  "prioritize_tags max_tags tags = slice_to max_tags (sorted_reverse priority_key tags)"

definition process_tags :: "int \<Rightarrow> string list \<Rightarrow> string list" where
  "process_tags max_tags raw_tags =
     (let normalized = normalize_tags raw_tags;
          filtered = filter_tags normalized;
          final = prioritize_tags max_tags filtered
      in final)"

text \<open>\<^verbatim>\<open>merge_tags(*tag_lists)\<close>: the argument lists are appended in call order.\<close>

fun merge_loop :: "string list list \<Rightarrow> string list \<Rightarrow> string list" where
  "merge_loop [] all_tags = all_tags"
| "merge_loop (tags # tag_lists) all_tags = merge_loop tag_lists (all_tags @ tags)"

definition merge_tags :: "int \<Rightarrow> string list list \<Rightarrow> string list" where
  "merge_tags max_tags tag_lists = process_tags max_tags (merge_loop tag_lists [])"

definition add_custom_tags :: "int \<Rightarrow> string list \<Rightarrow> string list \<Rightarrow> string list" where
  "add_custom_tags max_tags existing_tags custom_tags =
     merge_tags max_tags [existing_tags, custom_tags]"


section \<open>Exceptions\<close>

text \<open>
  A call that may raise returns a value of \<open>exception + 'a\<close>: \<open>Inl\<close> the exception raised,
  \<open>Inr\<close> the value returned. The argument of \<open>Exception\<close> is its message, which the
  handlers of this program only print. Printing is not modelled.
\<close>

datatype exception = Exception string

text \<open>\<^verbatim>\<open>try: body  except Exception as e: handler\<close>\<close>

definition try_except :: "exception + 'a \<Rightarrow> (exception \<Rightarrow> exception + 'a) \<Rightarrow> exception + 'a" where
  "try_except body handler = (case body of Inl e \<Rightarrow> handler e | Inr v \<Rightarrow> Inr v)"

text \<open>Sequencing inside a \<^verbatim>\<open>try\<close> block: the first exception ends the block.\<close>

definition and_then :: "exception + 'a \<Rightarrow> ('a \<Rightarrow> exception + 'b) \<Rightarrow> exception + 'b" where
  "and_then r f = (case r of Inl e \<Rightarrow> Inl e | Inr v \<Rightarrow> f v)"

section \<open>Vision service (\<^verbatim>\<open>app/services/vision_service.py\<close>)\<close>

text \<open>
  The remote client is modelled by what it answers for the content of an image. A label
  carries its description and its score; scores and the confidence threshold are the
  rational numbers that the floating-point values denote, so that \<^verbatim>\<open>>=\<close> on them is
  exact. A colour is the triple \<^verbatim>\<open>(int(red), int(green), int(blue))\<close>. A likelihood is
  given by its \<^verbatim>\<open>name\<close>.
\<close>

record label =
  description :: string
  score :: rat

record safe_search_annotation =
  adult :: string
  violence :: string

record vision_client =
  label_detection :: "string \<Rightarrow> exception + label list"
  image_properties :: "string \<Rightarrow> exception + (int \<times> int \<times> int) list"
  text_detection :: "string \<Rightarrow> exception + string list"
  safe_search_detection :: "string \<Rightarrow> exception + safe_search_annotation"

record vision_service =
  enabled :: bool
  client :: "vision_client option"

definition COLOR_NAMES :: "((int \<times> int \<times> int) \<times> string) list" where
  "COLOR_NAMES =
    [((255, 0, 0), ''red''),
     ((0, 255, 0), ''green''),
     ((0, 0, 255), ''blue''),
     ((255, 255, 0), ''yellow''),
     ((255, 165, 0), ''orange''),
     ((128, 0, 128), ''purple''),
     ((255, 192, 203), ''pink''),
     ((0, 0, 0), ''black''),
     ((255, 255, 255), ''white''),
     ((128, 128, 128), ''gray'')]"

definition LABEL_CATEGORIES :: "(string \<times> string list) list" where
  "LABEL_CATEGORIES =
    [(''nature'', [''sky'', ''cloud'', ''tree'', ''flower'', ''grass'', ''mountain'', ''water'',
                   ''ocean'', ''beach'']),
     (''urban'', [''building'', ''street'', ''city'', ''architecture'', ''road'', ''car'',
                  ''vehicle'']),
     (''people'', [''person'', ''face'', ''portrait'', ''people'', ''crowd'', ''group'']),
     (''indoor'', [''room'', ''furniture'', ''interior'', ''home'', ''office'', ''kitchen'']),
     (''food'', [''food'', ''dish'', ''meal'', ''cuisine'', ''dessert'', ''drink'',
                 ''restaurant'']),
     (''technology'', [''computer'', ''phone'', ''screen'', ''device'', ''electronic'',
                       ''technology'']),
     (''animal'', [''animal'', ''pet'', ''dog'', ''cat'', ''bird'', ''wildlife'']),
     (''sport'', [''sport'', ''game'', ''athlete'', ''competition'', ''exercise'',
                  ''fitness''])]"

definition is_available :: "vision_service \<Rightarrow> bool" where
  "is_available vs = (enabled vs \<and> client vs \<noteq> None)"

fun get_label_category_loop :: "(string \<times> string list) list \<Rightarrow> string \<Rightarrow> string option" where
  "get_label_category_loop [] lbl = None"
| "get_label_category_loop ((category, keywords) # items) lbl =
     (if list_ex (\<lambda>keyword. contains lbl keyword) keywords then Some category
      else get_label_category_loop items lbl)"

definition get_label_category :: "string \<Rightarrow> string option" where
  "get_label_category lbl = get_label_category_loop LABEL_CATEGORIES lbl"

text \<open>\<^verbatim>\<open>s.replace(" ", "-")\<close>\<close>

definition replace_space :: "string \<Rightarrow> string" where
  "replace_space s = map (\<lambda>c. if c = CHR '' '' then CHR ''-'' else c) s"

fun labels_loop :: "rat \<Rightarrow> label list \<Rightarrow> string list \<Rightarrow> string list" where
  "labels_loop min_confidence [] tags = tags"
| "labels_loop min_confidence (l # ls) tags =
     (if score l \<ge> min_confidence then
        (let tag = replace_space (lower (description l));
             tags1 = tags @ [tag]
         in case get_label_category (lower (description l)) of
              Some category \<Rightarrow>
                labels_loop min_confidence ls (if category \<noteq> [] then tags1 @ [category] else tags1)
            | None \<Rightarrow> labels_loop min_confidence ls tags1)
      else labels_loop min_confidence ls tags)"

text \<open>
  The four sub-analyses. Each one catches every exception of its own body and returns
  the empty list then. The first argument of \<open>analyze_labels\<close> is
  \<^verbatim>\<open>config.MIN_TAG_CONFIDENCE\<close>.
\<close>

definition analyze_labels :: "rat \<Rightarrow> vision_client \<Rightarrow> string \<Rightarrow> string list" where
  "analyze_labels min_confidence c img =
     (case label_detection c img of
        Inl e \<Rightarrow> []
      | Inr label_annotations \<Rightarrow> labels_loop min_confidence label_annotations [])"

text \<open>
  \<^verbatim>\<open>_get_closest_color_name\<close> compares Euclidean distances, the square roots of sums of
  squares of integers. The model compares the sums of squares themselves: the square
  root is increasing, two different sums in the range of colour channels have roots
  that differ by far more than a rounding error, and the threshold 150 is the root of
  22500. \<open>None\<close> as the running minimum stands for \<^verbatim>\<open>float("inf")\<close>.
\<close>

definition distance_squared :: "int \<times> int \<times> int \<Rightarrow> int \<times> int \<times> int \<Rightarrow> int" where
  "distance_squared rgb known_rgb =
     (case rgb of (r, g, b) \<Rightarrow> case known_rgb of (r', g', b') \<Rightarrow>
        (r - r') ^ 2 + (g - g') ^ 2 + (b - b') ^ 2)"

fun closest_color_loop ::
  "((int \<times> int \<times> int) \<times> string) list \<Rightarrow> int \<times> int \<times> int \<Rightarrow> int option \<Rightarrow> string option
   \<Rightarrow> int option \<times> string option" where
  "closest_color_loop [] rgb min_distance closest_color = (min_distance, closest_color)"
| "closest_color_loop ((known_rgb, color_name) # items) rgb min_distance closest_color =
     (let distance = distance_squared rgb known_rgb
      in if (case min_distance of None \<Rightarrow> True | Some m \<Rightarrow> distance < m)
         then closest_color_loop items rgb (Some distance) (Some color_name)
         else closest_color_loop items rgb min_distance closest_color)"

definition get_closest_color_name :: "int \<times> int \<times> int \<Rightarrow> string option" where
  "get_closest_color_name rgb =
     (case closest_color_loop COLOR_NAMES rgb None None of
        (min_distance, closest_color) \<Rightarrow>
          (if (case min_distance of None \<Rightarrow> False | Some m \<Rightarrow> m < 22500) then closest_color
           else None))"

fun colors_loop :: "(int \<times> int \<times> int) list \<Rightarrow> string list \<Rightarrow> string list" where
  "colors_loop [] tags = tags"
| "colors_loop (rgb # colors) tags =
     (case get_closest_color_name rgb of
        Some color_name \<Rightarrow>
          colors_loop colors
            (if color_name \<noteq> [] \<and> color_name \<notin> set tags then tags @ [color_name] else tags)
      | None \<Rightarrow> colors_loop colors tags)"

definition analyze_colors :: "vision_client \<Rightarrow> string \<Rightarrow> string list" where
  "analyze_colors c img =
     (case image_properties c img of
        Inl e \<Rightarrow> []
      | Inr colors \<Rightarrow> (if colors \<noteq> [] then colors_loop (take 3 colors) [] else []))"

definition doc_keywords :: "(string \<times> string) list" where
  "doc_keywords =
    [(''invoice'', ''invoice''),
     (''receipt'', ''receipt''),
     (''contract'', ''contract''),
     (''certificate'', ''certificate''),
     (''diploma'', ''diploma'')]"

fun doc_keywords_loop :: "(string \<times> string) list \<Rightarrow> string \<Rightarrow> string list \<Rightarrow> string list" where
  "doc_keywords_loop [] text tags = tags"
| "doc_keywords_loop ((keyword, tag) # items) text tags =
     (if contains text keyword then doc_keywords_loop items text (tags @ [tag])
      else doc_keywords_loop items text tags)"

definition analyze_text_in_image :: "vision_client \<Rightarrow> string \<Rightarrow> string list" where
  "analyze_text_in_image c img =
     (case text_detection c img of
        Inl e \<Rightarrow> []
      | Inr text_annotations \<Rightarrow>
          (case text_annotations of
             [] \<Rightarrow> []
           | first # others \<Rightarrow> doc_keywords_loop doc_keywords (lower first) [''text-content'']))"

text \<open>
  \<^verbatim>\<open>_analyze_safe_search\<close>. The dictionary \<^verbatim>\<open>level_map\<close> of the source is built there
  and never read.
\<close>

definition level_map :: "(string \<times> string option) list" where
  "level_map =
    [(''VERY_UNLIKELY'', None),
     (''UNLIKELY'', None),
     (''POSSIBLE'', Some ''flagged''),
     (''LIKELY'', Some ''flagged''),
     (''VERY_LIKELY'', Some ''flagged'')]"

definition analyze_safe_search :: "vision_client \<Rightarrow> string \<Rightarrow> string list" where
  "analyze_safe_search c img =
     (case safe_search_detection c img of
        Inl e \<Rightarrow> []
      | Inr safe \<Rightarrow>
          (let tags = []
           in if adult safe = ''VERY_UNLIKELY'' \<and> violence safe = ''VERY_UNLIKELY''
              then tags @ [''professional''] @ [''safe-content'']
              else tags))"

text \<open>
  \<^verbatim>\<open>analyze_image\<close>. \<open>read_bytes\<close> is the outcome of the steps before the four
  sub-analyses: opening the file, reading its content and building the request for the
  remote service. An exception there is caught and gives the empty list, so the
  function returns a list in every case.
\<close>

definition analyze_image ::
  "rat \<Rightarrow> vision_service \<Rightarrow> (string \<Rightarrow> exception + string) \<Rightarrow> string \<Rightarrow> string list" where
  "analyze_image min_confidence vs read_bytes image_path =
     (if \<not> is_available vs then []
      else case client vs of
             None \<Rightarrow> []
           | Some c \<Rightarrow>
               (case read_bytes image_path of
                  Inl e \<Rightarrow> []
                | Inr img \<Rightarrow>
                    analyze_labels min_confidence c img
                    @ analyze_colors c img
                    @ analyze_text_in_image c img
                    @ analyze_safe_search c img))"


section \<open>File processor (\<^verbatim>\<open>app/services/file_processor.py\<close>)\<close>

subsection \<open>Category of a media type\<close>

definition MIME_PREFIXES :: "(string \<times> string) list" where
  "MIME_PREFIXES =
    [(''image/'', ''image''),
     (''video/'', ''video''),
     (''audio/'', ''audio''),
     (''text/'', ''text'')]"

definition MIME_EXACT :: "(string \<times> string) list" where
  "MIME_EXACT =
    [(''application/pdf'', ''document''),
     (''application/msword'', ''document''),
     (''application/vnd.openxmlformats-officedocument.wordprocessingml.document'', ''document''),
     (''application/vnd.ms-excel'', ''spreadsheet''),
     (''application/vnd.openxmlformats-officedocument.spreadsheetml.sheet'', ''spreadsheet''),
     (''application/zip'', ''archive''),
     (''application/x-rar-compressed'', ''archive''),
     (''application/x-7z-compressed'', ''archive'')]"

text \<open>The loop over \<^verbatim>\<open>MIME_PREFIXES.items()\<close>, in the order of the dictionary.\<close>

fun prefix_loop :: "(string \<times> string) list \<Rightarrow> string \<Rightarrow> string" where
  "prefix_loop [] mime_type = ''other''"
| "prefix_loop ((pre, category) # items) mime_type =
     (if startswith mime_type pre then category else prefix_loop items mime_type)"

definition get_file_category :: "string \<Rightarrow> string" where
  "get_file_category mime_type =
     (case map_of MIME_EXACT mime_type of
        Some category \<Rightarrow> category
      | None \<Rightarrow> prefix_loop MIME_PREFIXES mime_type)"

subsection \<open>The files\<close>

text \<open>
  What the analyzers read from a file is given by the file system, per path: the
  image that \<^verbatim>\<open>Image.open\<close> yields, the document that \<^verbatim>\<open>PdfReader\<close> yields, the
  decoded text of the file, its bytes; or the exception raised instead.

  The pixel of an image is the value of \<^verbatim>\<open>img.resize((1, 1)).getpixel((0, 0))\<close>: an
  integer, a tuple of integers, or a float.

  The pages of a document are given by what \<^verbatim>\<open>extract_text()\<close> returns or raises on each.
\<close>

datatype pixel = Pixel_int int | Pixel_float | Pixel_tuple "int list"

record image =
  img_width :: int
  img_height :: int
  img_format :: "string option"
  img_mode :: string
  img_pixel :: "exception + pixel"

record pdf_reader =
  pages :: "(exception + string) list"

record file_system =
  image_open :: "string \<Rightarrow> exception + image"
  pdf_open :: "string \<Rightarrow> exception + pdf_reader"
  text_open :: "string \<Rightarrow> exception + string"
  read_bytes :: "string \<Rightarrow> exception + string"

subsection \<open>Images\<close>

text \<open>
  \<^verbatim>\<open>_analyze_dominant_color\<close> appends to the list it is given; the model returns the new
  list. An exception inside (a failing \<^verbatim>\<open>resize\<close>, a float or a tuple of fewer than
  three channels being indexed) is caught there and leaves the list as it is.
\<close>

definition analyze_dominant_color :: "image \<Rightarrow> string list \<Rightarrow> string list" where
  "analyze_dominant_color img tags =
     (case img_pixel img of
        Inl e \<Rightarrow> tags
      | Inr color \<Rightarrow>
          (case color of
             Pixel_int n \<Rightarrow> tags
           | Pixel_float \<Rightarrow> tags
           | Pixel_tuple channels \<Rightarrow>
               (case channels of
                  r # g # b # others \<Rightarrow>
                    (if r > 200 \<and> g < 100 \<and> b < 100 then tags @ [''red'']
                     else if r < 100 \<and> g > 200 \<and> b < 100 then tags @ [''green'']
                     else if r < 100 \<and> g < 100 \<and> b > 200 then tags @ [''blue'']
                     else if r > 200 \<and> g > 200 \<and> b > 200 then tags @ [''bright'']
                     else if r < 50 \<and> g < 50 \<and> b < 50 then tags @ [''dark'']
                     else tags)
                | _ \<Rightarrow> tags)))"

definition mode_map :: "(string \<times> string list) list" where
  "mode_map =
    [(''RGB'', [''color'']),
     (''L'', [''grayscale'', ''black-white'']),
     (''LA'', [''grayscale'', ''black-white'']),
     (''RGBA'', [''color'', ''transparent''])]"

text \<open>
  The body of the \<^verbatim>\<open>with Image.open(file_path) as img\<close> block, in two parts: the tags
  computed before \<^verbatim>\<open>_analyze_dominant_color\<close> is called, and the whole block. These
  are the tags computed from the image alone. The ratio is the exact quotient, where
  Python rounds it to a float; the two agree on every comparison below unless the
  quotient lies within one rounding error of a threshold.
\<close>

definition image_basic_tags :: "image \<Rightarrow> string list" where
  "image_basic_tags img =
     (let width = img_width img;
          height = img_height img;
          tags = [''image''];
          tags = (case img_format img of
                    Some f \<Rightarrow> (if f \<noteq> [] then tags @ [lower f] else tags)
                  | None \<Rightarrow> tags);
          ratio = (if height > 0 then (of_int width / of_int height :: rat) else 1);
          tags = (if 9 / 10 \<le> ratio \<and> ratio \<le> 11 / 10 then tags @ [''square'', ''balanced'']
                  else if ratio > 3 / 2 then tags @ [''landscape'', ''wide'']
                  else if ratio < 7 / 10 then tags @ [''portrait'', ''vertical'']
                  else tags);
          pixels = width * height;
          tags = (if pixels \<ge> 8294400 then tags @ [''4k'', ''ultra-hd'']
                  else if pixels \<ge> 2073600 then tags @ [''high resolution'', ''hd'']
                  else if pixels \<ge> 480000 then tags @ [''low resolution'', ''sd'']
                  else tags)
      in tags @ dict_get mode_map (img_mode img) [])"

definition image_local_tags :: "image \<Rightarrow> string list" where
  "image_local_tags img = analyze_dominant_color img (image_basic_tags img)"

text \<open>
  \<^verbatim>\<open>analyze_image_local\<close>. The first argument is \<^verbatim>\<open>config.MIN_TAG_CONFIDENCE\<close>, the
  second the file system, the third \<^verbatim>\<open>self.vision_service\<close>.
\<close>

definition analyze_image_local_try ::
  "rat \<Rightarrow> file_system \<Rightarrow> vision_service \<Rightarrow> string \<Rightarrow> exception + string list" where
  "analyze_image_local_try min_confidence fs vs file_path =
     and_then (image_open fs file_path) (\<lambda>img.
       let tags = image_local_tags img
       in if is_available vs then
            (let vision_tags = analyze_image min_confidence vs (read_bytes fs) file_path
             in if vision_tags \<noteq> [] then Inr (tags @ vision_tags) else Inr tags)
          else Inr tags)"

definition analyze_image_local ::
  "rat \<Rightarrow> file_system \<Rightarrow> vision_service \<Rightarrow> string \<Rightarrow> exception + string list" where
  "analyze_image_local min_confidence fs vs file_path =
     try_except (analyze_image_local_try min_confidence fs vs file_path)
       (\<lambda>e. Inr [''image'', ''unknown''])"

subsection \<open>PDF documents\<close>

text \<open>
  The keywords, with the letters outside ASCII written as the bytes of their UTF-8
  encoding.
\<close>

definition PDF_KEYWORDS :: "(string \<times> string list) list" where
  "PDF_KEYWORDS =
    [(''invoice'', [''invoice'', ''fatura'', ''pagamento'', ''total'']),
     (''financial'', [''financial'', ''financeiro'', ''contabilidade'']),
     (''contract'', [''contract'', ''contrato'', ''acordo'']),
     (''legal'', [''legal'', ''juridico'', ''tribunal'']),
     (''proposal'', [''proposal'', ''proposta'', ''or'' @ [CHR 0xC3, CHR 0xA7] @ ''amento'']),
     (''budget'', [''budget'', ''or'' @ [CHR 0xC3, CHR 0xA7] @ ''amento'', ''custo'']),
     (''report'', [''report'', ''relat'' @ [CHR 0xC3, CHR 0xB3] @ ''rio'',
                   ''an'' @ [CHR 0xC3, CHR 0xA1] @ ''lise'']),
     (''presentation'', [''presentation'',
                         ''apresenta'' @ [CHR 0xC3, CHR 0xA7, CHR 0xC3, CHR 0xA3] @ ''o'',
                         ''slide''])]"

text \<open>
  \<^verbatim>\<open>[p.extract_text() for p in pdf.pages[:3]]\<close>: the pages are read in order, and the
  first exception ends the comprehension.
\<close>

fun extract_texts :: "(exception + string) list \<Rightarrow> exception + string list" where
  "extract_texts [] = Inr []"
| "extract_texts (p # ps) =
     and_then p (\<lambda>t. and_then (extract_texts ps) (\<lambda>ts. Inr (t # ts)))"

text \<open>
  \<^verbatim>\<open>s.split()\<close>: the words of \<open>s\<close>, separated by runs of white space (on ASCII: the
  characters 9 to 13, 28 to 31 and the space). The second argument is the word being read.
\<close>

definition isspace :: "char \<Rightarrow> bool" where
  "isspace c = (let n = (of_char c :: nat) in (9 \<le> n \<and> n \<le> 13) \<or> (28 \<le> n \<and> n \<le> 32))"

fun split_loop :: "string \<Rightarrow> string \<Rightarrow> string list" where
  "split_loop [] w = (if w = [] then [] else [w])"
| "split_loop (c # s) w =
     (if isspace c then (if w = [] then split_loop s [] else w # split_loop s [])
      else split_loop s (w @ [c]))"

definition split :: "string \<Rightarrow> string list" where
  "split s = split_loop s []"

text \<open>
  The categories whose keywords occur in the sample are collected in a set, and the set
  is turned into a list. The order in which Python iterates over a set of strings is
  not fixed by the program; \<open>list_of_set\<close> stands for it: it is given the categories in
  the order of \<^verbatim>\<open>PDF_KEYWORDS\<close> and returns them in the order of the iteration.
\<close>

definition found_categories :: "string \<Rightarrow> string list" where
  "found_categories text_sample =
     map fst (filter (\<lambda>(category, keywords). list_ex (\<lambda>k. contains text_sample k) keywords)
                PDF_KEYWORDS)"

definition analyze_pdf_try ::
  "(string list \<Rightarrow> string list) \<Rightarrow> file_system \<Rightarrow> string \<Rightarrow> exception + string list" where
  "analyze_pdf_try list_of_set fs file_path =
     and_then (pdf_open fs file_path) (\<lambda>pdf.
       let num_pages = length (pages pdf);
           tags = [''pdf'', ''document''];
           tags = (if num_pages \<le> 3 then tags @ [''single-page'', ''flyer'']
                   else if num_pages \<le> 5 then tags @ [''short-document'', ''brief'']
                   else if num_pages \<le> 20 then tags @ [''medium-document'', ''report'']
                   else tags @ [''long-document'', ''book'', ''manual''])
       in and_then (extract_texts (take 3 (pages pdf))) (\<lambda>texts.
            let text_sample = lower (concat texts)
            in if text_sample \<noteq> [] then
                 (let tags = (if length (split text_sample) > 1000 then tags @ [''text-heavy'']
                              else tags)
                  in Inr (tags @ list_of_set (found_categories text_sample)))
               else Inr tags))"

definition analyze_pdf ::
  "(string list \<Rightarrow> string list) \<Rightarrow> file_system \<Rightarrow> string \<Rightarrow> exception + string list" where
  "analyze_pdf list_of_set fs file_path =
     try_except (analyze_pdf_try list_of_set fs file_path)
       (\<lambda>e. Inr [''pdf'', ''document'', ''error''])"

subsection \<open>Text files\<close>

record text_rule =
  rule_exts :: "string list"
  rule_tags :: "string list"
  rule_check :: "(string \<Rightarrow> string list) option"

definition TEXT_ANALYSIS_MAP :: "text_rule list" where
  "TEXT_ANALYSIS_MAP =
    [\<lparr>rule_exts = [''.py'', ''.python''],
      rule_tags = [''code'', ''python'', ''programming''],
      rule_check = Some (\<lambda>c. if contains c ''import'' \<and> contains c ''def'' then [''script'']
                              else [])\<rparr>,
     \<lparr>rule_exts = [''.js'', ''.jsx'', ''.ts'', ''.tsx''],
      rule_tags = [''code'', ''javascript'', ''programming''],
      rule_check = Some (\<lambda>c.
        (if contains c ''function'' \<or> contains c ''const'' then [''script''] else [])
        @ (if contains (lower c) ''react'' \<or> contains (lower c) ''component''
           then [''react'', ''frontend''] else []))\<rparr>,
     \<lparr>rule_exts = [''.html'', ''.htm''],
      rule_tags = [''code'', ''html'', ''web'', ''markup''],
      rule_check = Some (\<lambda>c. if contains (lower c) ''<html'' then [''webpage''] else [])\<rparr>,
     \<lparr>rule_exts = [''.css''],
      rule_tags = [''code'', ''css'', ''stylesheet'', ''design''],
      rule_check = None\<rparr>,
     \<lparr>rule_exts = [''.java''],
      rule_tags = [''code'', ''java'', ''programming''],
      rule_check = Some (\<lambda>c. if contains c ''class'' \<and> contains c ''public'' then [''oop'']
                              else [])\<rparr>,
     \<lparr>rule_exts = [''.cpp'', ''.c'', ''.h'', ''.hpp''],
      rule_tags = [''code'', ''c++'', ''c'', ''programming''],
      rule_check = Some (\<lambda>c. if contains c ''#include'' then [''native''] else [])\<rparr>,
     \<lparr>rule_exts = [''.php''],
      rule_tags = [''code'', ''php'', ''backend'', ''web''],
      rule_check = None\<rparr>,
     \<lparr>rule_exts = [''.sql''],
      rule_tags = [''code'', ''sql'', ''database'', ''query''],
      rule_check = None\<rparr>,
     \<lparr>rule_exts = [''.json''],
      rule_tags = [''data'', ''json'', ''config''],
      rule_check = None\<rparr>,
     \<lparr>rule_exts = [''.md'', ''.markdown''],
      rule_tags = [''markdown'', ''documentation'', ''readme''],
      rule_check = None\<rparr>,
     \<lparr>rule_exts = [''.csv''],
      rule_tags = [''csv'', ''data'', ''spreadsheet''],
      rule_check = None\<rparr>]"

text \<open>The loop over \<^verbatim>\<open>TEXT_ANALYSIS_MAP\<close>, left by \<^verbatim>\<open>break\<close> at the first rule that matches.\<close>

fun text_rules_loop :: "text_rule list \<Rightarrow> string \<Rightarrow> string \<Rightarrow> string list \<Rightarrow> string list" where
  "text_rules_loop [] file_lower content tags = tags"
| "text_rules_loop (config # rules) file_lower content tags =
     (if list_ex (\<lambda>ext. endswith file_lower ext) (rule_exts config) then
        (let tags = tags @ rule_tags config
         in case rule_check config of
              Some check \<Rightarrow> tags @ check content
            | None \<Rightarrow> tags)
      else text_rules_loop rules file_lower content tags)"

definition analyze_text_try :: "file_system \<Rightarrow> string \<Rightarrow> exception + string list" where
  "analyze_text_try fs file_path =
     (let file_lower = lower file_path;
          tags = [''text'']
      in and_then (text_open fs file_path) (\<lambda>file.
           let content = take 10000 file;
               tags = text_rules_loop TEXT_ANALYSIS_MAP file_lower content tags;
               tags = (if count_list content (CHR 0x0A) > 100 then tags @ [''large-file'']
                       else tags)
           in Inr tags))"

definition analyze_text :: "file_system \<Rightarrow> string \<Rightarrow> exception + string list" where
  "analyze_text fs file_path =
     try_except (analyze_text_try fs file_path) (\<lambda>e. Inr [''text'', ''error''])"

subsection \<open>Video and audio\<close>

fun media_ext_loop :: "(string \<times> string list) list \<Rightarrow> string \<Rightarrow> string list \<Rightarrow> string list" where
  "media_ext_loop [] file_lower tags = tags"
| "media_ext_loop ((ext, extras) # items) file_lower tags =
     (if endswith file_lower ext then tags @ extras
      else media_ext_loop items file_lower tags)"

definition analyze_media_ext ::
  "string \<Rightarrow> string \<Rightarrow> (string \<times> string list) list \<Rightarrow> exception + string list" where
  "analyze_media_ext file_path base_tag mapping =
     (let tags = [base_tag, ''media''];
          file_lower = lower file_path
      in Inr (media_ext_loop mapping file_lower tags))"

definition analyze_video :: "string \<Rightarrow> exception + string list" where
  "analyze_video file_path =
     (let ext_map =
        [(''.mp4'', [''mp4'', ''h264'']),
         (''.avi'', [''avi'']),
         (''.mov'', [''mov'', ''quicktime'']),
         (''.mkv'', [''mkv'', ''matroska'']),
         (''.webm'', [''webm'', ''vp9''])]
      in analyze_media_ext file_path ''video'' ext_map)"

definition analyze_audio :: "string \<Rightarrow> exception + string list" where
  "analyze_audio file_path =
     (let ext_map =
        [(''.mp3'', [''mp3'', ''mpeg'']),
         (''.wav'', [''wav'', ''lossless'']),
         (''.flac'', [''flac'', ''lossless'', ''high-quality'']),
         (''.ogg'', [''ogg'', ''vorbis'']),
         (''.m4a'', [''m4a'', ''aac''])]
      in analyze_media_ext file_path ''audio'' ext_map)"

subsection \<open>Dispatch on the category\<close>

text \<open>
  \<^verbatim>\<open>analyze_file\<close>. The processor is given by the confidence threshold of the
  configuration, the iteration order of sets, the file system and the vision service.
\<close>

record file_processor =
  min_confidence :: rat
  list_of_set :: "string list \<Rightarrow> string list"
  files :: file_system
  vision :: vision_service

definition analyzer_map ::
  "file_processor \<Rightarrow> (string \<times> (string \<Rightarrow> exception + string list)) list" where
  "analyzer_map self =
    [(''image'', analyze_image_local (min_confidence self) (files self) (vision self)),
     (''document'', analyze_pdf (list_of_set self) (files self)),
     (''text'', analyze_text (files self)),
     (''video'', analyze_video),
     (''audio'', analyze_audio)]"

definition analyze_file :: "file_processor \<Rightarrow> string \<Rightarrow> string \<Rightarrow> exception + string list" where
  "analyze_file self file_path mime_type =
     (let category = get_file_category mime_type
      in case map_of (analyzer_map self) category of
           Some analyzer \<Rightarrow> analyzer file_path
         | None \<Rightarrow> Inr [category])"


section \<open>Example inputs\<close>

text \<open>
  A file system with one readable image, three documents (two pages, eighteen pages,
  and one whose second page cannot be decoded) and no text file; an image whose pixels
  cannot be decoded; a remote client; a vision service that is switched off and one that
  is available; a processor.
\<close>

definition example_image :: image where
  "example_image =
     \<lparr>img_width = 1920, img_height = 1080, img_format = Some ''PNG'', img_mode = ''RGB'',
      img_pixel = Inr (Pixel_tuple [250, 10, 10])\<rparr>"

definition truncated_image :: image where
  "truncated_image =
     \<lparr>img_width = 800, img_height = 800, img_format = Some ''PNG'', img_mode = ''RGB'',
      img_pixel = Inl (Exception ''image file is truncated'')\<rparr>"

definition example_files :: file_system where
  "example_files =
     \<lparr>image_open = (\<lambda>p. if p = ''a.png'' then Inr example_image
                         else if p = ''cut.png'' then Inr truncated_image
                         else Inl (Exception ''cannot identify image file'')),
      pdf_open = (\<lambda>p. if p = ''two.pdf'' then Inr \<lparr>pages = [Inr ''Invoice TOTAL'', Inr '' due'']\<rparr>
                       else if p = ''long.pdf'' then Inr \<lparr>pages = replicate 18 (Inr ''page'')\<rparr>
                       else if p = ''bad.pdf'' then
                         Inr \<lparr>pages = [Inr ''x'', Inl (Exception ''cannot decode page'')]\<rparr>
                       else Inl (Exception ''no such file'')),
      text_open = (\<lambda>p. Inl (Exception ''no such file'')),
      read_bytes = (\<lambda>p. Inr ''bytes'')\<rparr>"

definition example_client :: vision_client where
  "example_client =
     \<lparr>label_detection = (\<lambda>i. Inr [\<lparr>description = ''Blue Sky'', score = 8 / 10\<rparr>]),
      image_properties = (\<lambda>i. Inl (Exception ''quota exceeded'')),
      text_detection = (\<lambda>i. Inr []),
      safe_search_detection =
        (\<lambda>i. if i = ''bytes'' then Inr \<lparr>adult = ''VERY_UNLIKELY'', violence = ''VERY_UNLIKELY''\<rparr>
              else Inr \<lparr>adult = ''VERY_UNLIKELY'', violence = ''LIKELY''\<rparr>)\<rparr>"

definition vision_off :: vision_service where
  "vision_off = \<lparr>enabled = False, client = None\<rparr>"


definition example_processor :: file_processor where
  "example_processor =
     \<lparr>min_confidence = 7 / 10, list_of_set = (\<lambda>xs. xs), files = example_files,
      vision = vision_off\<rparr>"

section \<open>Properties of the tag analyzer\<close>











lemma merge_loop_eq: "merge_loop tag_lists acc = acc @ concat tag_lists"
  by (induction tag_lists arbitrary: acc) simp_all




























text \<open>
  Claim C4. For all tag lists \<open>a\<close> and \<open>b\<close>, \<^verbatim>\<open>merge_tags(a, b)\<close> returns the same list as
  \<^verbatim>\<open>process_tags\<close> applied to \<open>a\<close> followed by \<open>b\<close>.
\<close>

theorem merge_tags_is_process_of_append:
  "merge_tags max_tags [a, b] = process_tags max_tags (a @ b)"
  by (simp add: merge_tags_def)

section \<open>Properties of the file processor and the vision service\<close>

lemma prefix_loop_first:
  "i < length ps \<Longrightarrow> startswith m (fst (ps ! i)) \<Longrightarrow> \<forall>j < i. \<not> startswith m (fst (ps ! j)) \<Longrightarrow>
   prefix_loop ps m = snd (ps ! i)"
proof (induction ps arbitrary: i)
  case Nil
  then show ?case by simp
next
  case (Cons p ps)
  obtain pre category where p: "p = (pre, category)" by (cases p)
  show ?case
  proof (cases i)
    case 0
    with Cons.prems p show ?thesis by simp
  next
    case (Suc k)
    have "\<not> startswith m pre" using Cons.prems(3) Suc p by auto
    moreover have "prefix_loop ps m = snd (ps ! k)"
    proof (rule Cons.IH)
      show "k < length ps" using Cons.prems(1) Suc by simp
      show "startswith m (fst (ps ! k))" using Cons.prems(2) Suc by simp
      show "\<forall>j < k. \<not> startswith m (fst (ps ! j))"
      proof (intro allI impI)
        fix j assume "j < k"
        then have "Suc j < i" using Suc by simp
        then have "\<not> startswith m (fst ((p # ps) ! Suc j))" using Cons.prems(3) by blast
        then show "\<not> startswith m (fst (ps ! j))" by simp
      qed
    qed
    ultimately show ?thesis using Suc p by simp
  qed
qed

lemma prefix_loop_none:
  "\<forall>p \<in> set ps. \<not> startswith m (fst p) \<Longrightarrow> prefix_loop ps m = ''other''"
  by (induction ps) auto

lemma prefix_loop_range: "prefix_loop ps m \<in> insert ''other'' (snd ` set ps)"
proof (induction ps)
  case Nil
  show ?case by simp
next
  case (Cons p ps)
  obtain pre category where p: "p = (pre, category)" by (cases p)
  show ?case
  proof (cases "startswith m pre")
    case True
    then show ?thesis using p by simp
  next
    case False
    then have "prefix_loop (p # ps) m = prefix_loop ps m" using p by simp
    then show ?thesis using Cons.IH by auto
  qed
qed

lemma MIME_EXACT_distinct: "distinct (map fst MIME_EXACT)"
  by (simp add: MIME_EXACT_def)

lemma get_file_category_exact:
  "(m, c) \<in> set MIME_EXACT \<Longrightarrow> get_file_category m = c"
  using map_of_is_SomeI [OF MIME_EXACT_distinct] by (simp add: get_file_category_def)

lemma get_file_category_range:
  "get_file_category m \<in> {''image'', ''video'', ''audio'', ''text'', ''document'', ''spreadsheet'',
     ''archive'', ''other''}"
proof (cases "map_of MIME_EXACT m")
  case None
  then have "get_file_category m = prefix_loop MIME_PREFIXES m"
    by (simp add: get_file_category_def)
  moreover have "prefix_loop MIME_PREFIXES m \<in> insert ''other'' (snd ` set MIME_PREFIXES)"
    by (rule prefix_loop_range)
  ultimately show ?thesis by (simp add: MIME_PREFIXES_def)
next
  case (Some c)
  then have "(m, c) \<in> set MIME_EXACT" by (rule map_of_SomeD)
  then have "c \<in> snd ` set MIME_EXACT" by force
  moreover have "get_file_category m = c" using Some by (simp add: get_file_category_def)
  ultimately show ?thesis by (auto simp: MIME_EXACT_def)
qed

text \<open>
  Claim C2. For every media type \<open>m\<close>, \<^verbatim>\<open>get_file_category\<close> returns one of the
  categories; an entry of \<open>MIME_EXACT\<close> for \<open>m\<close> decides the result whatever the
  prefixes are (so \<^verbatim>\<open>application/pdf\<close> is a document); without such an entry the
  result is the category of the first prefix of \<open>MIME_PREFIXES\<close>, in the order of
  declaration, that \<open>m\<close> starts with, and \<^verbatim>\<open>other\<close> when there is none.
\<close>

theorem get_file_category_total_exact_first_prefix:
  "get_file_category m \<in> {''image'', ''video'', ''audio'', ''text'', ''document'', ''spreadsheet'',
     ''archive'', ''other''} \<and>
   (\<forall>c. (m, c) \<in> set MIME_EXACT \<longrightarrow> get_file_category m = c) \<and>
   get_file_category ''application/pdf'' = ''document'' \<and>
   (m \<notin> fst ` set MIME_EXACT \<longrightarrow>
      (\<forall>i < length MIME_PREFIXES.
         startswith m (fst (MIME_PREFIXES ! i)) \<and>
         (\<forall>j < i. \<not> startswith m (fst (MIME_PREFIXES ! j))) \<longrightarrow>
         get_file_category m = snd (MIME_PREFIXES ! i)) \<and>
      ((\<forall>i < length MIME_PREFIXES. \<not> startswith m (fst (MIME_PREFIXES ! i))) \<longrightarrow>
         get_file_category m = ''other''))"
proof (intro conjI allI impI)
  show "get_file_category m \<in> {''image'', ''video'', ''audio'', ''text'', ''document'',
     ''spreadsheet'', ''archive'', ''other''}"
    by (rule get_file_category_range)
next
  fix c assume "(m, c) \<in> set MIME_EXACT"
  then show "get_file_category m = c" by (rule get_file_category_exact)
next
  show "get_file_category ''application/pdf'' = ''document''"
    by (rule get_file_category_exact) (simp add: MIME_EXACT_def)
next
  fix i
  assume n: "m \<notin> fst ` set MIME_EXACT" and i: "i < length MIME_PREFIXES"
    and f: "startswith m (fst (MIME_PREFIXES ! i)) \<and>
            (\<forall>j < i. \<not> startswith m (fst (MIME_PREFIXES ! j)))"
  from n have "map_of MIME_EXACT m = None" by (simp add: map_of_eq_None_iff)
  then have "get_file_category m = prefix_loop MIME_PREFIXES m"
    by (simp add: get_file_category_def)
  also have "\<dots> = snd (MIME_PREFIXES ! i)"
    using i f by (intro prefix_loop_first) simp_all
  finally show "get_file_category m = snd (MIME_PREFIXES ! i)" .
next
  assume n: "m \<notin> fst ` set MIME_EXACT"
    and f: "\<forall>i < length MIME_PREFIXES. \<not> startswith m (fst (MIME_PREFIXES ! i))"
  from n have "map_of MIME_EXACT m = None" by (simp add: map_of_eq_None_iff)
  then have "get_file_category m = prefix_loop MIME_PREFIXES m"
    by (simp add: get_file_category_def)
  also have "\<dots> = ''other''"
  proof (rule prefix_loop_none, rule ballI)
    fix p assume "p \<in> set MIME_PREFIXES"
    then obtain i where "i < length MIME_PREFIXES" "MIME_PREFIXES ! i = p"
      by (auto simp: in_set_conv_nth)
    then show "\<not> startswith m (fst p)" using f by auto
  qed
  finally show "get_file_category m = ''other''" .
qed


theorem get_file_category_total_exact_first_prefix_witness:
  "(''application/pdf'', ''document'') \<in> set MIME_EXACT \<and>
   get_file_category ''application/pdf'' = ''document'' \<and>
   ''text/html'' \<notin> fst ` set MIME_EXACT \<and>
   (3::nat) < length MIME_PREFIXES \<and>
   startswith ''text/html'' (fst (MIME_PREFIXES ! 3)) \<and>
   \<not> startswith ''text/html'' (fst (MIME_PREFIXES ! 0)) \<and>
   \<not> startswith ''text/html'' (fst (MIME_PREFIXES ! 1)) \<and>
   \<not> startswith ''text/html'' (fst (MIME_PREFIXES ! 2)) \<and>
   get_file_category ''text/html'' = ''text'' \<and>
   ''application/octet-stream'' \<notin> fst ` set MIME_EXACT \<and>
   \<not> startswith ''application/octet-stream'' (fst (MIME_PREFIXES ! 0)) \<and>
   \<not> startswith ''application/octet-stream'' (fst (MIME_PREFIXES ! 1)) \<and>
   \<not> startswith ''application/octet-stream'' (fst (MIME_PREFIXES ! 2)) \<and>
   \<not> startswith ''application/octet-stream'' (fst (MIME_PREFIXES ! 3)) \<and>
   get_file_category ''application/octet-stream'' = ''other''"
proof -
  have e: "(''application/pdf'', ''document'') \<in> set MIME_EXACT"
    by (simp add: MIME_EXACT_def)
  have n: "''text/html'' \<notin> fst ` set MIME_EXACT" "''application/octet-stream'' \<notin> fst ` set MIME_EXACT"
    by (simp_all add: MIME_EXACT_def)
  have l: "length MIME_PREFIXES = 4" by (simp add: MIME_PREFIXES_def)
  have h: "startswith ''text/html'' (fst (MIME_PREFIXES ! 3))"
    "\<not> startswith ''text/html'' (fst (MIME_PREFIXES ! 0))"
    "\<not> startswith ''text/html'' (fst (MIME_PREFIXES ! 1))"
    "\<not> startswith ''text/html'' (fst (MIME_PREFIXES ! 2))"
    by (simp_all add: MIME_PREFIXES_def startswith_def)
  have o: "\<not> startswith ''application/octet-stream'' (fst (MIME_PREFIXES ! 0))"
    "\<not> startswith ''application/octet-stream'' (fst (MIME_PREFIXES ! 1))"
    "\<not> startswith ''application/octet-stream'' (fst (MIME_PREFIXES ! 2))"
    "\<not> startswith ''application/octet-stream'' (fst (MIME_PREFIXES ! 3))"
    by (simp_all add: MIME_PREFIXES_def startswith_def)
  have lt3: "\<And>j::nat. j < 3 \<Longrightarrow> j = 0 \<or> j = 1 \<or> j = 2" by arith
  have lt4: "\<And>j::nat. j < 4 \<Longrightarrow> j = 0 \<or> j = 1 \<or> j = 2 \<or> j = 3" by arith
  have h': "\<forall>j < 3. \<not> startswith ''text/html'' (fst (MIME_PREFIXES ! j))"
    using h lt3 by blast
  have o': "\<forall>i < length MIME_PREFIXES. \<not> startswith ''application/octet-stream'' (fst (MIME_PREFIXES ! i))"
    unfolding l using o lt4 by blast
  have a: "get_file_category ''application/pdf'' = ''document''"
    using get_file_category_total_exact_first_prefix [of "''application/pdf''"] e by blast
  have b: "get_file_category ''text/html'' = ''text''"
  proof -
    have "get_file_category ''text/html'' = snd (MIME_PREFIXES ! 3)"
      using get_file_category_total_exact_first_prefix [of "''text/html''"] n(1) h(1) h' l
      by simp
    then show ?thesis by (simp add: MIME_PREFIXES_def)
  qed
  have c: "get_file_category ''application/octet-stream'' = ''other''"
    using get_file_category_total_exact_first_prefix [of "''application/octet-stream''"] n(2) o'
    by blast
  show ?thesis using e n l h o a b c by simp
qed

text \<open>
  Claim C7. The safe-content sub-analysis returns the tags \<^verbatim>\<open>professional\<close> and
  \<^verbatim>\<open>safe-content\<close> exactly when the remote service answers and both the adult and the
  violence likelihood are \<^verbatim>\<open>VERY_UNLIKELY\<close>; it never returns the tag \<^verbatim>\<open>flagged\<close>;
  and it returns either nothing or these two tags.
\<close>

theorem analyze_safe_search_only_safe_tags:
  "(analyze_safe_search c img = [''professional'', ''safe-content'']) =
     (\<exists>safe. safe_search_detection c img = Inr safe \<and>
             adult safe = ''VERY_UNLIKELY'' \<and> violence safe = ''VERY_UNLIKELY'') \<and>
   ''flagged'' \<notin> set (analyze_safe_search c img) \<and>
   (analyze_safe_search c img = [] \<or>
    analyze_safe_search c img = [''professional'', ''safe-content''])"
  by (cases "safe_search_detection c img") (simp_all add: analyze_safe_search_def)

theorem analyze_safe_search_only_safe_tags_witness:
  "safe_search_detection example_client ''bytes'' =
     Inr \<lparr>adult = ''VERY_UNLIKELY'', violence = ''VERY_UNLIKELY''\<rparr> \<and>
   analyze_safe_search example_client ''bytes'' = [''professional'', ''safe-content''] \<and>
   safe_search_detection example_client ''other bytes'' =
     Inr \<lparr>adult = ''VERY_UNLIKELY'', violence = ''LIKELY''\<rparr> \<and>
   analyze_safe_search example_client ''other bytes'' = [] \<and>
   ''flagged'' \<notin> set (analyze_safe_search example_client ''other bytes'')"
proof -
  have a: "safe_search_detection example_client ''bytes'' =
     Inr \<lparr>adult = ''VERY_UNLIKELY'', violence = ''VERY_UNLIKELY''\<rparr>"
    by (simp add: example_client_def)
  have b: "safe_search_detection example_client ''other bytes'' =
     Inr \<lparr>adult = ''VERY_UNLIKELY'', violence = ''LIKELY''\<rparr>"
    by (simp add: example_client_def)
  have "analyze_safe_search example_client ''bytes'' = [''professional'', ''safe-content'']"
    using analyze_safe_search_only_safe_tags [of example_client "''bytes''"] a by simp
  moreover have "analyze_safe_search example_client ''other bytes'' = []"
    using analyze_safe_search_only_safe_tags [of example_client "''other bytes''"] b by auto
  ultimately show ?thesis using a b by simp
qed







lemma extract_texts_succeeds:
  "\<forall>q \<in> set ps. \<not> isl q \<Longrightarrow> \<exists>texts. extract_texts ps = Inr texts"
proof (induction ps)
  case Nil
  then show ?case by simp
next
  case (Cons p ps)
  then obtain texts where "extract_texts ps = Inr texts" by auto
  moreover obtain t where "p = Inr t" using Cons.prems by (cases p) auto
  ultimately show ?case by (simp add: and_then_def)
qed









lemma analyze_pdf_read:
  assumes "pdf_open fs p = Inr pdf" "\<forall>q \<in> set (take 3 (pages pdf)). \<not> isl q"
  shows "\<exists>rest. analyze_pdf los fs p =
           Inr ([''pdf'', ''document''] @
                (if length (pages pdf) \<le> 3 then [''single-page'', ''flyer'']
                 else if length (pages pdf) \<le> 5 then [''short-document'', ''brief'']
                 else if length (pages pdf) \<le> 20 then [''medium-document'', ''report'']
                 else [''long-document'', ''book'', ''manual'']) @ rest)"
proof -
  obtain texts where t: "extract_texts (take 3 (pages pdf)) = Inr texts"
    using extract_texts_succeeds [OF assms(2)] by blast
  show ?thesis
    using assms(1) t
    by (simp add: analyze_pdf_def analyze_pdf_try_def try_except_def and_then_def Let_def)
qed

text \<open>
  Claim C9. For a document that is opened and whose first three pages yield their
  text, the tags begin with \<^verbatim>\<open>pdf\<close>, \<^verbatim>\<open>document\<close> and the tags of the tier of the number
  of pages: \<^verbatim>\<open>single-page\<close>, \<^verbatim>\<open>flyer\<close> up to 3 pages; \<^verbatim>\<open>short-document\<close>, \<^verbatim>\<open>brief\<close>
  for 4 or 5; \<^verbatim>\<open>medium-document\<close>, \<^verbatim>\<open>report\<close> for 6 to 20; \<^verbatim>\<open>long-document\<close>,
  \<^verbatim>\<open>book\<close>, \<^verbatim>\<open>manual\<close> above 20. The witness reads a document of 2 pages and one of 18.
\<close>

theorem analyze_pdf_page_count_tiers:
  assumes "pdf_open fs p = Inr pdf" and "\<forall>q \<in> set (take 3 (pages pdf)). \<not> isl q"
  shows "(length (pages pdf) \<le> 3 \<longrightarrow>
            (\<exists>rest. analyze_pdf los fs p =
               Inr ([''pdf'', ''document'', ''single-page'', ''flyer''] @ rest))) \<and>
         (4 \<le> length (pages pdf) \<and> length (pages pdf) \<le> 5 \<longrightarrow>
            (\<exists>rest. analyze_pdf los fs p =
               Inr ([''pdf'', ''document'', ''short-document'', ''brief''] @ rest))) \<and>
         (6 \<le> length (pages pdf) \<and> length (pages pdf) \<le> 20 \<longrightarrow>
            (\<exists>rest. analyze_pdf los fs p =
               Inr ([''pdf'', ''document'', ''medium-document'', ''report''] @ rest))) \<and>
         (20 < length (pages pdf) \<longrightarrow>
            (\<exists>rest. analyze_pdf los fs p =
               Inr ([''pdf'', ''document'', ''long-document'', ''book'', ''manual''] @ rest)))"
  using analyze_pdf_read [OF assms, of los] by auto

theorem analyze_pdf_page_count_tiers_witness:
  "pdf_open example_files ''two.pdf'' = Inr \<lparr>pages = [Inr ''Invoice TOTAL'', Inr '' due'']\<rparr> \<and>
   analyze_pdf (\<lambda>xs. xs) example_files ''two.pdf'' =
     Inr ([''pdf'', ''document'', ''single-page'', ''flyer''] @ [''invoice'']) \<and>
   pdf_open example_files ''long.pdf'' = Inr \<lparr>pages = replicate 18 (Inr ''page'')\<rparr> \<and>
   length (pages \<lparr>pages = replicate 18 (Inr ''page'')\<rparr>) = 18 \<and>
   analyze_pdf (\<lambda>xs. xs) example_files ''long.pdf'' =
     Inr ([''pdf'', ''document'', ''medium-document'', ''report''] @ [])"
proof -
  have a: "pdf_open example_files ''two.pdf'' =
     Inr \<lparr>pages = [Inr ''Invoice TOTAL'', Inr '' due'']\<rparr>"
    by (simp add: example_files_def)
  have a': "\<forall>q \<in> set (take 3 (pages \<lparr>pages = [Inr ''Invoice TOTAL'', Inr '' due'']\<rparr>)). \<not> isl q"
    by simp
  have b: "pdf_open example_files ''long.pdf'' = Inr \<lparr>pages = replicate 18 (Inr ''page'')\<rparr>"
    by (simp add: example_files_def)
  have b': "\<forall>q \<in> set (take 3 (pages \<lparr>pages = replicate 18 (Inr ''page'')\<rparr>)). \<not> isl q"
    by simp
  have va: "analyze_pdf (\<lambda>xs. xs) example_files ''two.pdf'' =
     Inr [''pdf'', ''document'', ''single-page'', ''flyer'', ''invoice'']"
    by code_simp
  have vb: "analyze_pdf (\<lambda>xs. xs) example_files ''long.pdf'' =
     Inr [''pdf'', ''document'', ''medium-document'', ''report'']"
    by code_simp
  show ?thesis
    using a b va vb
      analyze_pdf_page_count_tiers [OF a a', of "\<lambda>xs. xs"]
      analyze_pdf_page_count_tiers [OF b b', of "\<lambda>xs. xs"]
    by simp
qed

lemma analyzer_map_None:
  "category \<notin> {''image'', ''document'', ''text'', ''video'', ''audio''} \<Longrightarrow>
   map_of (analyzer_map self) category = None"
  by (simp add: analyzer_map_def)

text \<open>
  Claim C10. When the category of the media type is none of \<^verbatim>\<open>image\<close>, \<^verbatim>\<open>document\<close>,
  \<^verbatim>\<open>text\<close>, \<^verbatim>\<open>video\<close> and \<^verbatim>\<open>audio\<close>, \<^verbatim>\<open>analyze_file\<close> returns the list of that one
  category. The file is not read: the result is the same for every processor (every
  file system and vision service) and every path.
\<close>

theorem analyze_file_without_analyzer:
  assumes "get_file_category mime_type \<notin> {''image'', ''document'', ''text'', ''video'', ''audio''}"
  shows "analyze_file self file_path mime_type = Inr [get_file_category mime_type] \<and>
         (\<forall>self' file_path'. analyze_file self' file_path' mime_type =
                              analyze_file self file_path mime_type)"
  using analyzer_map_None [OF assms] by (simp add: analyze_file_def Let_def)

theorem analyze_file_without_analyzer_witness:
  "get_file_category ''application/zip'' = ''archive'' \<and>
   get_file_category ''application/zip'' \<notin> {''image'', ''document'', ''text'', ''video'', ''audio''} \<and>
   analyze_file example_processor ''upload.zip'' ''application/zip'' = Inr [''archive'']"
proof -
  have c: "get_file_category ''application/zip'' = ''archive''"
    by code_simp
  have n: "get_file_category ''application/zip'' \<notin>
             {''image'', ''document'', ''text'', ''video'', ''audio''}"
    unfolding c by simp
  show ?thesis
    using c n analyze_file_without_analyzer [OF n, of example_processor "''upload.zip''"]
    by simp
qed

end
